theory Spec2Isabelle
  imports Main
begin

section \<open>Bootstrap reconciliation and network configuration of a Proxmox machine\<close>

text \<open>
  A shallow embedding of \<^verbatim>\<open>internal/service/vmservice/bootstrap.go\<close>. Every Go function
  of that file is one HOL function of the same name. A function that talks to a
  collaborator takes the machine scope and returns it again, with the calls it made
  appended to a trace; an \<^verbatim>\<open>error\<close> return is the left summand of a sum.
\<close>

subsection \<open>Errors\<close>

text \<open>
  Go errors built with \<^verbatim>\<open>errors.New\<close> and \<^verbatim>\<open>errors.Wrap\<close>/\<^verbatim>\<open>Wrapf\<close> of
  \<^verbatim>\<open>github.com/pkg/errors\<close>: a message, or a cause with a message in front of it.
  \<open>Error\<close> is the \<^verbatim>\<open>Error()\<close> method.
\<close>

datatype error = New string | Wrap error string

fun Error :: "error \<Rightarrow> string" where
  "Error (New msg) = msg"
| "Error (Wrap cause msg) = msg @ '': '' @ Error cause"

subsection \<open>Data\<close>

text \<open>\<^verbatim>\<open>cloudinit.NetworkConfigData\<close>: the record of one network interface.\<close>

record NetworkConfigData =
  MacAddress :: string
  IPAddress :: string
  IPV6Address :: string
  Gateway :: string
  Gateway6 :: string
  DNSServers :: "string list"

text \<open>The zero value of the struct (\<^verbatim>\<open>var config cloudinit.NetworkConfigData\<close>).\<close>

definition zeroNetworkConfigData :: NetworkConfigData where
  "zeroNetworkConfigData =
     \<lparr>MacAddress = [], IPAddress = [], IPV6Address = [], Gateway = [], Gateway6 = [],
      DNSServers = []\<rparr>"

text \<open>
  The fields of an allocated address object that the resolver reads
  (\<^verbatim>\<open>ipAddr.Spec.Address\<close>, \<^verbatim>\<open>ipAddr.Spec.Prefix\<close>, \<^verbatim>\<open>ipAddr.Spec.Gateway\<close>).
\<close>

record IPAddressSpec =
  ip_Address :: string
  ip_Prefix :: int
  ip_Gateway :: string

text \<open>
  One entry of \<^verbatim>\<open>network.AdditionalDevices\<close>. Of the two pool references only
  nil or not nil is read; a reference is kept as the pool's name.
\<close>

record AdditionalNetworkDevice =
  nic_Name :: string
  nic_IPv4PoolRef :: "string option"
  nic_IPv6PoolRef :: "string option"
  nic_DNSServers :: "string list"

record NetworkSpec =
  AdditionalDevices :: "AdditionalNetworkDevice list"

text \<open>Conditions of cluster-api (\<^verbatim>\<open>clusterv1.Condition\<close>), without their time stamp.\<close>

datatype ConditionType = VMProvisionedCondition

datatype ConditionReason =
  WaitingForStaticIPAllocationReason | CloningFailedReason | VMProvisionFailedReason

datatype ConditionSeverity =
  ConditionSeverityError | ConditionSeverityWarning | ConditionSeverityInfo

record Condition =
  cond_Type :: ConditionType
  cond_Status :: bool
  cond_Reason :: ConditionReason
  cond_Severity :: ConditionSeverity
  cond_Message :: string

text \<open>
  \<^verbatim>\<open>machineScope.ProxmoxMachine\<close>: the part of the custom resource this file reads or
  writes. \<open>Network\<close> is \<^verbatim>\<open>Spec.Network\<close> (a pointer), \<open>IPAddresses\<close> is
  \<^verbatim>\<open>Status.IPAddresses\<close> (device name, IPv4 and IPv6 address; only
  \<^verbatim>\<open>machineHasIPAddress\<close> looks at it), \<open>BootstrapDataProvided\<close> is
  \<^verbatim>\<open>Status.BootstrapDataProvided\<close> (a \<^verbatim>\<open>*bool\<close>) and \<open>Conditions\<close> is
  \<^verbatim>\<open>Status.Conditions\<close>.
\<close>

record ProxmoxMachine =
  Network :: "NetworkSpec option"
  IPAddresses :: "(string \<times> string \<times> string) list"
  BootstrapDataProvided :: "bool option"
  Conditions :: "Condition list"

text \<open>
  The calls made to collaborators, in the order they are made: the fetch of the
  bootstrap secret, the lookup of the address object of a device, and the injection of
  the payload, the metadata (instance id and host name) and the network records.
\<close>

datatype call =
  CallGetBootstrapSecret
| CallFindIPAddress string
| CallInject string "string \<times> string" "NetworkConfigData list"

text \<open>
  \<^verbatim>\<open>scope.MachineScope\<close>, flattened to what this file reads:
  \<^item> \<open>DataSecretName\<close> is \<^verbatim>\<open>Machine.Spec.Bootstrap.DataSecretName\<close>;
  \<^item> \<open>Name\<close> is \<^verbatim>\<open>machineScope.Name()\<close>;
  \<^item> \<open>SMBios1\<close> is \<^verbatim>\<open>VirtualMachine.VirtualMachineConfig.SMBios1\<close>;
  \<^item> \<open>MergeNets\<close> is the map \<^verbatim>\<open>VirtualMachine.VirtualMachineConfig.MergeNets()\<close>, as
    an association list from device name to configuration line;
  \<^item> \<open>IPv4Config\<close> and \<open>IPv6Config\<close> are the pointers
    \<^verbatim>\<open>InfraCluster.ProxmoxCluster.Spec.IPv4Config\<close> and \<^verbatim>\<open>IPv6Config\<close> (the
    addresses of the pool; only nil or not nil is read);
  \<^item> \<open>cluster_DNSServers\<close> is \<^verbatim>\<open>InfraCluster.ProxmoxCluster.Spec.DNSServers\<close>;
  \<^item> \<open>calls\<close> is not a field of the Go struct: it is the trace of collaborator calls
    made so far.
\<close>

record MachineScope =
  ProxmoxMachine :: ProxmoxMachine
  DataSecretName :: "string option"
  Name :: string
  SMBios1 :: string
  MergeNets :: "(string \<times> string) list"
  IPv4Config :: "string list option"
  IPv6Config :: "string list option"
  cluster_DNSServers :: "string list"
  calls :: "call list"

text \<open>
  What \<^verbatim>\<open>bootstrap.go\<close> uses and neither it nor another file present defines is a
  parameter: the helpers \<^verbatim>\<open>machineHasIPAddress\<close>, \<^verbatim>\<open>extractMACAddress\<close>, \<^verbatim>\<open>extractUUID\<close> and
  \<^verbatim>\<open>IPAddressWithPrefix\<close>, the constants \<^verbatim>\<open>DefaultNetworkDeviceIPV4\<close>,
  \<^verbatim>\<open>DefaultNetworkDeviceIPV6\<close> and \<^verbatim>\<open>infrav1alpha1.DefaultSuffix\<close>, the library function
  \<^verbatim>\<open>conditions.MarkFalse\<close> (as a function on the condition list), and the three
  collaborators: \<^verbatim>\<open>scope.GetBootstrapSecret\<close> (returning the secret's \<^verbatim>\<open>Data\<close> map),
  \<^verbatim>\<open>findIPAddress\<close> and the injector's \<^verbatim>\<open>Inject\<close>. A collaborator's answer may depend
  on the calls made before it.
\<close>

record env =
  machineHasIPAddress :: "ProxmoxMachine \<Rightarrow> bool"
  extractMACAddress :: "string \<Rightarrow> string"
  extractUUID :: "string \<Rightarrow> string"
  IPAddressWithPrefix :: "string \<Rightarrow> int \<Rightarrow> string"
  DefaultNetworkDeviceIPV4 :: string
  DefaultNetworkDeviceIPV6 :: string
  DefaultSuffix :: string
  MarkFalse :: "ConditionType \<Rightarrow> ConditionReason \<Rightarrow> ConditionSeverity \<Rightarrow> string
                \<Rightarrow> Condition list \<Rightarrow> Condition list"
  GetBootstrapSecret :: "call list \<Rightarrow> error + (string \<rightharpoonup> string)"
  findIPAddress :: "call list \<Rightarrow> string \<Rightarrow> error + IPAddressSpec"
  Inject :: "call list \<Rightarrow> string \<Rightarrow> string \<times> string \<Rightarrow> NetworkConfigData list
             \<Rightarrow> error option"

subsection \<open>Small steps\<close>

text \<open>\<^verbatim>\<open>ptr.Deref(p, def)\<close>.\<close>

definition Deref :: "'a option \<Rightarrow> 'a \<Rightarrow> 'a" where
  "Deref p d = (case p of None \<Rightarrow> d | Some v \<Rightarrow> v)"

text \<open>Reading a Go map of strings: a missing key reads as the empty string.\<close>

definition netsLookup :: "(string \<times> string) list \<Rightarrow> string \<Rightarrow> string" where
  "netsLookup nets d = (case map_of nets d of None \<Rightarrow> [] | Some line \<Rightarrow> line)"

text \<open>\<^verbatim>\<open>conditions.MarkFalse(machineScope.ProxmoxMachine, ...)\<close>.\<close>

definition markFalse ::
  "env \<Rightarrow> ConditionType \<Rightarrow> ConditionReason \<Rightarrow> ConditionSeverity \<Rightarrow> string
   \<Rightarrow> MachineScope \<Rightarrow> MachineScope" where
  "markFalse env t r sev msg ms =
     ms\<lparr>ProxmoxMachine :=
          (ProxmoxMachine ms)\<lparr>Conditions :=
             MarkFalse env t r sev msg (Conditions (ProxmoxMachine ms))\<rparr>\<rparr>"

text \<open>Appending a call to the trace.\<close>

definition record_call :: "call \<Rightarrow> MachineScope \<Rightarrow> MachineScope" where
  "record_call c ms = ms\<lparr>calls := calls ms @ [c]\<rparr>"

subsection \<open>vmHasMacAddresses\<close>

text \<open>
  The loop \<^verbatim>\<open>for d := range nets\<close>: it returns false at the first device whose
  configuration line yields no MAC address.
\<close>

fun allHaveMac :: "env \<Rightarrow> (string \<times> string) list \<Rightarrow> string list \<Rightarrow> bool" where
  "allHaveMac env nets [] = True"
| "allHaveMac env nets (d # ds) =
     (if extractMACAddress env (netsLookup nets d) = [] then False
      else allHaveMac env nets ds)"

definition vmHasMacAddresses :: "env \<Rightarrow> MachineScope \<Rightarrow> bool" where
  "vmHasMacAddresses env ms =
     (let nets = MergeNets ms
      in if length nets = 0 then False else allHaveMac env nets (map fst nets))"

subsection \<open>getBootstrapData\<close>

definition getBootstrapData :: "env \<Rightarrow> MachineScope \<Rightarrow> (error + string) \<times> MachineScope" where
  "getBootstrapData env ms =
     (case DataSecretName ms of
        None \<Rightarrow> (Inl (New ''machine has no bootstrap data''), ms)
      | Some _ \<Rightarrow>
          (let ms1 = record_call CallGetBootstrapSecret ms
           in case GetBootstrapSecret env (calls ms) of
                Inl err \<Rightarrow> (Inl (Wrap err ''failed to retrieve bootstrap data secret''), ms1)
              | Inr secret \<Rightarrow>
                  (case secret ''value'' of
                     None \<Rightarrow>
                       (Inl (New ''error retrieving bootstrap data: secret `value` key is missing''),
                        ms1)
                   | Some v \<Rightarrow> (Inr v, ms1))))"

subsection \<open>The device resolver\<close>

text \<open>
  \<^verbatim>\<open>strings.Cut(device, "-")\<close> keeps what stands before the first \<^verbatim>\<open>-\<close>, and the whole
  string when there is none.
\<close>

definition getNetworkConfigDataForDevice ::
  "env \<Rightarrow> MachineScope \<Rightarrow> string \<Rightarrow> (error + NetworkConfigData) \<times> MachineScope" where
  "getNetworkConfigDataForDevice env ms device =
     (let nets = MergeNets ms;
          formattedDevice = takeWhile (\<lambda>c. c \<noteq> CHR ''-'') device;
          macAddress = extractMACAddress env (netsLookup nets formattedDevice)
      in if length macAddress = 0 then (Inl (New ''unable to extract mac address''), ms)
         else
           (let ms1 = record_call (CallFindIPAddress device) ms
            in case findIPAddress env (calls ms) device of
                 Inl err \<Rightarrow>
                   (Inl (Wrap err (''unable to find IPAddress, device='' @ device)), ms1)
               | Inr ipAddr \<Rightarrow>
                   (let dns = cluster_DNSServers ms;
                        ip = IPAddressWithPrefix env (ip_Address ipAddr) (ip_Prefix ipAddr);
                        gw = ip_Gateway ipAddr
                    in (Inr \<lparr>MacAddress = macAddress, IPAddress = ip, IPV6Address = [],
                              Gateway = gw, Gateway6 = [], DNSServers = dns\<rparr>, ms1))))"

subsection \<open>The network config assembler\<close>

text \<open>
  \<^verbatim>\<open>getDefaultNetworkDevice\<close>. The variable \<open>config\<close> starts as the zero value, the
  IPv4 block overwrites it, and the IPv6 block runs the \<^verbatim>\<open>switch\<close> on it.
\<close>

definition getDefaultNetworkDevice ::
  "env \<Rightarrow> MachineScope \<Rightarrow> (error + NetworkConfigData list) \<times> MachineScope" where
  "getDefaultNetworkDevice env ms =
     (case (if IPv4Config ms \<noteq> None
            then (case getNetworkConfigDataForDevice env ms (DefaultNetworkDeviceIPV4 env) of
                    (Inl err, ms1) \<Rightarrow>
                      (Inl (Wrap err (''unable to get network config data for device=''
                                      @ DefaultNetworkDeviceIPV4 env)), ms1)
                  | (Inr conf, ms1) \<Rightarrow> (Inr conf, ms1))
            else (Inr zeroNetworkConfigData, ms)) of
        (Inl err, ms1) \<Rightarrow> (Inl err, ms1)
      | (Inr config, ms1) \<Rightarrow>
          (if IPv6Config ms \<noteq> None
           then (case getNetworkConfigDataForDevice env ms1 (DefaultNetworkDeviceIPV6 env) of
                   (Inl err, ms2) \<Rightarrow>
                     (Inl (Wrap err (''unable to get network config data for device=''
                                     @ DefaultNetworkDeviceIPV6 env)), ms2)
                 | (Inr conf, ms2) \<Rightarrow>
                     (if length (MacAddress config) = 0 then (Inr [conf], ms2)
                      else if MacAddress config \<noteq> MacAddress conf
                      then (Inl (New
                        ''default network device ipv4 and ipv6 have different mac addresses''),
                        ms2)
                      else (Inr [config\<lparr>IPV6Address := IPAddress conf,
                                        Gateway6 := Gateway conf\<rparr>], ms2)))
           else (Inr [config], ms1)))"

text \<open>
  The body of the loop of \<^verbatim>\<open>getAdditionalNetworkDevices\<close> for one device \<open>nic\<close>; it
  returns the struct that \<open>config\<close> points to at the end of the iteration. \<open>config\<close>
  is a pointer: in the IPv4 block the DNS override is written to the struct \<open>config\<close>
  points to, and then \<^verbatim>\<open>config = conf\<close> makes \<open>config\<close> point to the resolver's struct.
  Each struct is reachable through \<open>config\<close> and \<open>conf\<close> only, so the successive values
  of \<open>*config\<close> are the successive bindings of \<open>config\<close> below.
\<close>

definition additionalNetworkDevice ::
  "env \<Rightarrow> MachineScope \<Rightarrow> AdditionalNetworkDevice
   \<Rightarrow> (error + NetworkConfigData) \<times> MachineScope" where
  "additionalNetworkDevice env ms nic =
     (let config = zeroNetworkConfigData
      in case (if nic_IPv4PoolRef nic \<noteq> None
               then (let device = nic_Name nic @ ''-'' @ DefaultSuffix env
                     in case getNetworkConfigDataForDevice env ms device of
                          (Inl err, ms1) \<Rightarrow>
                            (Inl (Wrap err (''unable to get network config data for device=''
                                            @ device)), ms1)
                        | (Inr conf, ms1) \<Rightarrow>
                            (let config = (if length (nic_DNSServers nic) \<noteq> 0
                                           then config\<lparr>DNSServers := nic_DNSServers nic\<rparr>
                                           else config);
                                 config = conf
                             in (Inr config, ms1)))
               else (Inr config, ms)) of
           (Inl err, ms1) \<Rightarrow> (Inl err, ms1)
         | (Inr config, ms1) \<Rightarrow>
             (if nic_IPv6PoolRef nic \<noteq> None
              then (let suffix = DefaultSuffix env @ ''6'';
                        device = nic_Name nic @ ''-'' @ suffix
                    in case getNetworkConfigDataForDevice env ms1 device of
                         (Inl err, ms2) \<Rightarrow>
                           (Inl (Wrap err (''unable to get network config data for device=''
                                           @ device)), ms2)
                       | (Inr conf, ms2) \<Rightarrow>
                           (let config = (if length (nic_DNSServers nic) \<noteq> 0
                                          then config\<lparr>DNSServers := nic_DNSServers nic\<rparr>
                                          else config)
                            in if length (MacAddress config) = 0 then (Inr conf, ms2)
                               else if MacAddress config \<noteq> MacAddress conf
                               then (Inl (New
                                 ''additional network device ipv4 and ipv6 have different mac addresses''),
                                 ms2)
                               else (Inr (config\<lparr>IPV6Address := IPAddress conf,
                                                 Gateway6 := Gateway conf\<rparr>), ms2)))
              else (Inr config, ms1)))"

text \<open>
  The loop over \<^verbatim>\<open>network.AdditionalDevices\<close>, with the slice \<open>networkConfigData\<close>
  built so far: a device whose struct has no MAC address is not appended.
\<close>

fun additionalNetworkDevicesLoop ::
  "env \<Rightarrow> MachineScope \<Rightarrow> AdditionalNetworkDevice list \<Rightarrow> NetworkConfigData list
   \<Rightarrow> (error + NetworkConfigData list) \<times> MachineScope" where
  "additionalNetworkDevicesLoop env ms [] networkConfigData = (Inr networkConfigData, ms)"
| "additionalNetworkDevicesLoop env ms (nic # nics) networkConfigData =
     (case additionalNetworkDevice env ms nic of
        (Inl err, ms1) \<Rightarrow> (Inl err, ms1)
      | (Inr config, ms1) \<Rightarrow>
          additionalNetworkDevicesLoop env ms1 nics
            (if length (MacAddress config) > 0 then networkConfigData @ [config]
             else networkConfigData))"

definition getAdditionalNetworkDevices ::
  "env \<Rightarrow> MachineScope \<Rightarrow> NetworkSpec \<Rightarrow> (error + NetworkConfigData list) \<times> MachineScope"
  where
  "getAdditionalNetworkDevices env ms network =
     additionalNetworkDevicesLoop env ms (AdditionalDevices network) []"

definition getNetworkConfigData ::
  "env \<Rightarrow> MachineScope \<Rightarrow> (error + NetworkConfigData list) \<times> MachineScope" where
  "getNetworkConfigData env ms =
     (let network = Deref (Network (ProxmoxMachine ms)) \<lparr>AdditionalDevices = []\<rparr>;
          networkConfigData = []
      in case getDefaultNetworkDevice env ms of
           (Inl err, ms1) \<Rightarrow> (Inl err, ms1)
         | (Inr defaultConfig, ms1) \<Rightarrow>
             (let networkConfigData = networkConfigData @ defaultConfig
              in case getAdditionalNetworkDevices env ms1 network of
                   (Inl err, ms2) \<Rightarrow> (Inl err, ms2)
                 | (Inr additionalConfig, ms2) \<Rightarrow>
                     (Inr (networkConfigData @ additionalConfig), ms2)))"

subsection \<open>The bootstrap reconciler\<close>

text \<open>
  \<^verbatim>\<open>reconcileBootstrapData\<close>: the pair \<open>(requeue, err)\<close> and the machine scope after the
  pass. The two log lines are not modelled. The injector receives the payload, the
  metadata renderer (built from the BIOS UUID and the machine's name) and the network
  renderer (built from the device records).
\<close>

definition reconcileBootstrapData ::
  "env \<Rightarrow> MachineScope \<Rightarrow> (bool \<times> error option) \<times> MachineScope" where
  "reconcileBootstrapData env ms =
     (if Deref (BootstrapDataProvided (ProxmoxMachine ms)) False then ((False, None), ms)
      else if \<not> machineHasIPAddress env (ProxmoxMachine ms)
      then ((True, None),
            markFalse env VMProvisionedCondition WaitingForStaticIPAllocationReason
              ConditionSeverityWarning ''no ip address'' ms)
      else if \<not> vmHasMacAddresses env ms then ((True, None), ms)
      else (case getBootstrapData env ms of
              (Inl err, ms1) \<Rightarrow>
                ((False, Some err),
                 markFalse env VMProvisionedCondition CloningFailedReason
                   ConditionSeverityWarning (Error err) ms1)
            | (Inr bootstrapData, ms1) \<Rightarrow>
                (let biosUUID = extractUUID env (SMBios1 ms1)
                 in case getNetworkConfigData env ms1 of
                      (Inl err, ms2) \<Rightarrow>
                        ((False, Some err),
                         markFalse env VMProvisionedCondition WaitingForStaticIPAllocationReason
                           ConditionSeverityWarning (Error err) ms2)
                    | (Inr nicData, ms2) \<Rightarrow>
                        (let network = nicData;
                             metadata = (biosUUID, Name ms2);
                             ms3 = record_call (CallInject bootstrapData metadata network) ms2
                         in case Inject env (calls ms2) bootstrapData metadata network of
                              Some err \<Rightarrow>
                                ((False, Some (Wrap err ''cloud-init iso inject failed'')),
                                 markFalse env VMProvisionedCondition VMProvisionFailedReason
                                   ConditionSeverityWarning (Error err) ms3)
                            | None \<Rightarrow>
                                ((False, None),
                                 ms3\<lparr>ProxmoxMachine :=
                                       (ProxmoxMachine ms3)\<lparr>BootstrapDataProvided :=
                                          Some True\<rparr>\<rparr>)))))"

text \<open>
  The controller calls the reconciler again and again; the collaborators may answer
  differently at each pass. \<open>reconcilePasses\<close> runs one pass per environment of the
  list and collects the outcomes.
\<close>

fun reconcilePasses ::
  "env list \<Rightarrow> MachineScope \<Rightarrow> (bool \<times> error option) list \<times> MachineScope" where
  "reconcilePasses [] ms = ([], ms)"
| "reconcilePasses (env # envs) ms =
     (case reconcileBootstrapData env ms of
        (outcome, ms1) \<Rightarrow>
          (case reconcilePasses envs ms1 of
             (outcomes, ms2) \<Rightarrow> (outcome # outcomes, ms2)))"

section \<open>The network config renderer\<close>

text \<open>
  The renderer is \<^verbatim>\<open>NewNetworkConfig(nics).Render()\<close> of package \<^verbatim>\<open>cloudinit\<close>. Its file
  \<^verbatim>\<open>pkg/cloudinit/network.go\<close> is absent; its test \<^verbatim>\<open>pkg/cloudinit/network_test.go\<close> is
  present, and names the error values.
\<close>

datatype RenderError =
  ErrMissingNetworkConfigData
| ErrMissingMacAddress
| ErrMissingIPAddress
| ErrMalformedIPAddress
| ErrMissingGateway

subsection \<open>Validation\<close>

text \<open>
  Modelled from the spec: when an address string has a CIDR prefix (the check is in
  the absent \<^verbatim>\<open>pkg/cloudinit/network.go\<close>). The spec, section 4.3 and glossary: "a bare
  dotted-quad or bare IPv6 literal without a /length suffix is invalid"; CIDR form is
  "an address string with an explicit prefix-length suffix (address/length)". Here: a
  \<^verbatim>\<open>/\<close> occurs in the string, and what follows the first \<^verbatim>\<open>/\<close> up to the end is decimal
  digits, at least one.
\<close>

definition hasPrefixLength :: "string \<Rightarrow> bool" where
  "hasPrefixLength addr =
     (case dropWhile (\<lambda>c. c \<noteq> CHR ''/'') addr of
        [] \<Rightarrow> False
      | _ # len \<Rightarrow> len \<noteq> [] \<and> list_all (\<lambda>c. c \<in> set ''0123456789'') len)"

text \<open>
  Modelled from the spec: the rules of one address family (absent
  \<^verbatim>\<open>pkg/cloudinit/network.go\<close>). The spec, section 4.3: "MalformedIPAddress if a present
  address string lacks a CIDR prefix, and MissingGateway if an address is present but
  its corresponding gateway is absent", in this order.
\<close>

definition validateFamily :: "string \<Rightarrow> string \<Rightarrow> RenderError option" where
  "validateFamily addr gw =
     (if addr = [] then None
      else if \<not> hasPrefixLength addr then Some ErrMalformedIPAddress
      else if gw = [] then Some ErrMissingGateway
      else None)"

text \<open>
  Modelled from the spec: the rules of one device (absent
  \<^verbatim>\<open>pkg/cloudinit/network.go\<close>). The spec, section 4.3: "fails with MissingMacAddress if
  the MAC is empty, MissingIPAddress if neither IPv4 nor IPv6 address is present", then
  the rules of the address families; "validation order per device: MAC check first,
  then address-family checks; stop at first violated rule for that device". The IPv4
  family is taken before the IPv6 family.
\<close>

definition validateDevice :: "NetworkConfigData \<Rightarrow> RenderError option" where
  "validateDevice d =
     (if MacAddress d = [] then Some ErrMissingMacAddress
      else if IPAddress d = [] \<and> IPV6Address d = [] then Some ErrMissingIPAddress
      else (case validateFamily (IPAddress d) (Gateway d) of
              Some e \<Rightarrow> Some e
            | None \<Rightarrow> validateFamily (IPV6Address d) (Gateway6 d)))"

text \<open>
  Modelled from the spec: the loop over the devices (absent
  \<^verbatim>\<open>pkg/cloudinit/network.go\<close>). The spec, section 4.3: "for each device, in order",
  failing fast.
\<close>

fun validateDevices :: "NetworkConfigData list \<Rightarrow> RenderError option" where
  "validateDevices [] = None"
| "validateDevices (d # ds) =
     (case validateDevice d of Some e \<Rightarrow> Some e | None \<Rightarrow> validateDevices ds)"

text \<open>
  Modelled from the spec: the validation of \<^verbatim>\<open>Render\<close> (absent
  \<^verbatim>\<open>pkg/cloudinit/network.go\<close>). The spec, section 4.3: "fails with
  MissingNetworkConfigData if the input list is empty", then the devices in order.
\<close>

definition validate :: "NetworkConfigData list \<Rightarrow> RenderError option" where
  "validate nics = (if nics = [] then Some ErrMissingNetworkConfigData else validateDevices nics)"

subsection \<open>The document\<close>

text \<open>
  Modelled from the spec: the decimal numeral of an interface index (the template of
  the absent \<^verbatim>\<open>pkg/cloudinit/network.go\<close>). The spec, section 4.3: "interface names are
  assigned sequentially starting from a fixed base name (first device gets the base
  name, subsequent devices get successive suffixes)"; the test expects \<^verbatim>\<open>eth0\<close> and
  \<^verbatim>\<open>eth1\<close>.
\<close>

fun showNat :: "nat \<Rightarrow> string" where
  "showNat n =
     (if n < 10 then [''0123456789'' ! n]
      else showNat (n div 10) @ [''0123456789'' ! (n mod 10)])"

text \<open>
  Modelled from the spec: the lines of a document joined by newline characters, none
  after the last line (absent \<^verbatim>\<open>pkg/cloudinit/network.go\<close>). The spec, section 4.3: "a
  structured, indentation-significant text document"; the documents the test expects
  end without a newline.
\<close>

fun joinLines :: "string list \<Rightarrow> string" where
  "joinLines [] = []"
| "joinLines [l] = l"
| "joinLines (l # ls) = l @ [CHR 0x0A] @ joinLines ls"

text \<open>
  Modelled from the spec: the entry of one interface (absent
  \<^verbatim>\<open>pkg/cloudinit/network.go\<close>). The spec, section 4.3: "each interface entry disables
  automatic address assignment explicitly (boolean-as-string "no" literal, quoted) and
  lists one address per configured family, one default route per configured family
  (IPv4 route emitted before IPv6 route when both present), and an optional nameserver
  block listing dnsServers in input order, omitted entirely when the list is empty",
  with "two-space indentation, block sequences using - markers". The keys and their
  order are those of the documents the test expects.
\<close>

definition renderDevice :: "nat \<Rightarrow> NetworkConfigData \<Rightarrow> string list" where
  "renderDevice i d =
     [''    eth'' @ showNat i @ '':'',
      ''      match:'',
      ''        macaddress: '' @ MacAddress d,
      ''      dhcp4: 'no'' @ [CHR 0x27],
      ''      addresses:'']
     @ (if IPAddress d \<noteq> [] then [''        - '' @ IPAddress d] else [])
     @ (if IPV6Address d \<noteq> [] then [''        - '' @ IPV6Address d] else [])
     @ [''      routes:'']
     @ (if IPAddress d \<noteq> []
        then [''        - to: default'', ''          via: '' @ Gateway d] else [])
     @ (if IPV6Address d \<noteq> []
        then [''        - to: default'', ''          via: '' @ Gateway6 d] else [])
     @ (if DNSServers d \<noteq> []
        then [''      nameservers:'', ''        addresses:'']
             @ map (\<lambda>a. ''          - '' @ a) (DNSServers d)
        else [])"

text \<open>
  Modelled from the spec: the entries of the devices in input order, the first with
  index 0 (absent \<^verbatim>\<open>pkg/cloudinit/network.go\<close>). The spec, section 3: "first record,
  first interface name, etc.".
\<close>

fun renderDevices :: "nat \<Rightarrow> NetworkConfigData list \<Rightarrow> string list" where
  "renderDevices i [] = []"
| "renderDevices i (d # ds) = renderDevice i d @ renderDevices (Suc i) ds"

text \<open>
  Modelled from the spec: \<^verbatim>\<open>Render\<close> (absent \<^verbatim>\<open>pkg/cloudinit/network.go\<close>). The spec,
  section 4.3: a "transform from an ordered device list to a serialized configuration
  document (or a validation error)" "under a fixed top-level schema: version marker,
  renderer identifier, and a map of interface-name to interface entry". The four head
  lines are those of the documents the test expects.
\<close>

definition Render :: "NetworkConfigData list \<Rightarrow> RenderError + string" where
  "Render nics =
     (case validate nics of
        Some e \<Rightarrow> Inl e
      | None \<Rightarrow>
          Inr (joinLines
                 ([''network:'', ''  version: 2'', ''  renderer: networkd'', ''  ethernets:'']
                  @ renderDevices 0 nics)))"

subsection \<open>The documents of the test\<close>

text \<open>
  The constants \<^verbatim>\<open>expectedValidNetworkConfig\<close> and
  \<^verbatim>\<open>expectedValidNetworkConfigWithoutDNS\<close> of \<^verbatim>\<open>network_test.go\<close>, line by line (a
  raw string literal of Go: the line breaks are newline characters, and no newline
  follows the last line), and the two device lists the test renders.
\<close>

definition expectedValidNetworkConfigWithoutDNS :: string where
  "expectedValidNetworkConfigWithoutDNS =
     joinLines
       [''network:'',
        ''  version: 2'',
        ''  renderer: networkd'',
        ''  ethernets:'',
        ''    eth0:'',
        ''      match:'',
        ''        macaddress: 92:60:a0:5b:22:c2'',
        ''      dhcp4: 'no'' @ [CHR 0x27],
        ''      addresses:'',
        ''        - 10.10.10.12/24'',
        ''      routes:'',
        ''        - to: default'',
        ''          via: 10.10.10.1'']"

definition expectedValidNetworkConfig :: string where
  "expectedValidNetworkConfig =
     joinLines
       [''network:'',
        ''  version: 2'',
        ''  renderer: networkd'',
        ''  ethernets:'',
        ''    eth0:'',
        ''      match:'',
        ''        macaddress: 92:60:a0:5b:22:c2'',
        ''      dhcp4: 'no'' @ [CHR 0x27],
        ''      addresses:'',
        ''        - 10.10.10.12/24'',
        ''      routes:'',
        ''        - to: default'',
        ''          via: 10.10.10.1'',
        ''      nameservers:'',
        ''        addresses:'',
        ''          - 8.8.8.8'',
        ''          - 8.8.4.4'']"

definition validNic :: NetworkConfigData where
  "validNic =
     \<lparr>MacAddress = ''92:60:a0:5b:22:c2'', IPAddress = ''10.10.10.12/24'', IPV6Address = [],
      Gateway = ''10.10.10.1'', Gateway6 = [], DNSServers = [''8.8.8.8'', ''8.8.4.4'']\<rparr>"

definition validNicWithoutDNS :: NetworkConfigData where
  "validNicWithoutDNS = validNic\<lparr>DNSServers := []\<rparr>"

text \<open>
  The other documents the test expects: two devices, one dual-stack device, one IPv6
  device.
\<close>

definition expectedValidNetworkConfigMultipleNics :: string where
  "expectedValidNetworkConfigMultipleNics =
     joinLines
       [''network:'',
        ''  version: 2'',
        ''  renderer: networkd'',
        ''  ethernets:'',
        ''    eth0:'',
        ''      match:'',
        ''        macaddress: 92:60:a0:5b:22:c2'',
        ''      dhcp4: 'no'' @ [CHR 0x27],
        ''      addresses:'',
        ''        - 10.10.10.12/24'',
        ''      routes:'',
        ''        - to: default'',
        ''          via: 10.10.10.1'',
        ''      nameservers:'',
        ''        addresses:'',
        ''          - 8.8.8.8'',
        ''          - 8.8.4.4'',
        ''    eth1:'',
        ''      match:'',
        ''        macaddress: b4:87:18:bf:a3:60'',
        ''      dhcp4: 'no'' @ [CHR 0x27],
        ''      addresses:'',
        ''        - 196.168.100.124/24'',
        ''      routes:'',
        ''        - to: default'',
        ''          via: 196.168.100.254'',
        ''      nameservers:'',
        ''        addresses:'',
        ''          - 8.8.8.8'',
        ''          - 8.8.4.4'']"

definition expectedValidNetworkConfigDualStack :: string where
  "expectedValidNetworkConfigDualStack =
     joinLines
       [''network:'',
        ''  version: 2'',
        ''  renderer: networkd'',
        ''  ethernets:'',
        ''    eth0:'',
        ''      match:'',
        ''        macaddress: 92:60:a0:5b:22:c2'',
        ''      dhcp4: 'no'' @ [CHR 0x27],
        ''      addresses:'',
        ''        - 10.10.10.12/24'',
        ''        - 2001:db8::1/64'',
        ''      routes:'',
        ''        - to: default'',
        ''          via: 10.10.10.1'',
        ''        - to: default'',
        ''          via: 2001:db8::1'',
        ''      nameservers:'',
        ''        addresses:'',
        ''          - 8.8.8.8'',
        ''          - 8.8.4.4'']"

definition expectedValidNetworkConfigIPV6 :: string where
  "expectedValidNetworkConfigIPV6 =
     joinLines
       [''network:'',
        ''  version: 2'',
        ''  renderer: networkd'',
        ''  ethernets:'',
        ''    eth0:'',
        ''      match:'',
        ''        macaddress: 92:60:a0:5b:22:c2'',
        ''      dhcp4: 'no'' @ [CHR 0x27],
        ''      addresses:'',
        ''        - 2001:db8::1/64'',
        ''      routes:'',
        ''        - to: default'',
        ''          via: 2001:db8::1'',
        ''      nameservers:'',
        ''        addresses:'',
        ''          - 8.8.8.8'',
        ''          - 8.8.4.4'']"

section \<open>A concrete machine\<close>

text \<open>
  An environment and a machine scope to run the functions on. The helpers of
  \<open>exampleEnv\<close> are stand-ins for the parameters of \<open>env\<close>: the MAC
  address of a configuration line is what stands between its first \<^verbatim>\<open>=\<close> and the next
  \<^verbatim>\<open>,\<close>, a machine has an IP address when its address list is not empty, and
  \<open>MarkFalse\<close> replaces the condition of the same type. The address objects of the
  devices \<^verbatim>\<open>net0-inet\<close>, \<^verbatim>\<open>net0-inet6\<close>, \<^verbatim>\<open>net1-inet\<close> and \<^verbatim>\<open>net1-inet6\<close>
  exist.
\<close>

definition exampleEnv :: env where
  "exampleEnv =
     \<lparr>machineHasIPAddress = (\<lambda>m. IPAddresses m \<noteq> []),
      extractMACAddress =
        (\<lambda>line. takeWhile (\<lambda>c. c \<noteq> CHR '','') (drop 1 (dropWhile (\<lambda>c. c \<noteq> CHR ''='') line))),
      extractUUID = (\<lambda>smbios. drop 5 smbios),
      IPAddressWithPrefix = (\<lambda>ip prefix. ip @ ''/'' @ showNat (nat prefix)),
      DefaultNetworkDeviceIPV4 = ''net0-inet'',
      DefaultNetworkDeviceIPV6 = ''net0-inet6'',
      DefaultSuffix = ''inet'',
      MarkFalse =
        (\<lambda>t r sev msg cs.
           \<lparr>cond_Type = t, cond_Status = False, cond_Reason = r, cond_Severity = sev,
            cond_Message = msg\<rparr> # filter (\<lambda>c. cond_Type c \<noteq> t) cs),
      GetBootstrapSecret = (\<lambda>_. Inr [''value'' \<mapsto> ''#cloud-config'']),
      findIPAddress =
        (\<lambda>_ device.
           if device = ''net0-inet''
           then Inr \<lparr>ip_Address = ''10.10.10.12'', ip_Prefix = 24, ip_Gateway = ''10.10.10.1''\<rparr>
           else if device = ''net0-inet6''
           then Inr \<lparr>ip_Address = ''2001:db8::12'', ip_Prefix = 64,
                     ip_Gateway = ''2001:db8::1''\<rparr>
           else if device = ''net1-inet''
           then Inr \<lparr>ip_Address = ''192.168.1.7'', ip_Prefix = 24,
                     ip_Gateway = ''192.168.1.1''\<rparr>
           else if device = ''net1-inet6''
           then Inr \<lparr>ip_Address = ''fd00::7'', ip_Prefix = 64, ip_Gateway = ''fd00::1''\<rparr>
           else Inl (New ''not found'')),
      Inject = (\<lambda>_ _ _ _. None)\<rparr>"

definition exampleMachine :: ProxmoxMachine where
  "exampleMachine =
     \<lparr>Network = None, IPAddresses = [(''net0'', ''10.10.10.12'', [])],
      BootstrapDataProvided = None, Conditions = []\<rparr>"

definition exampleScope :: MachineScope where
  "exampleScope =
     \<lparr>ProxmoxMachine = exampleMachine,
      DataSecretName = Some ''bootstrap-secret'',
      Name = ''machine-0'',
      SMBios1 = ''uuid=56603c36-46b9-4608-90ae-c731c15eae64'',
      MergeNets = [(''net0'', ''virtio=92:60:a0:5b:22:c2,bridge=vmbr0''),
                   (''net1'', ''virtio=b4:87:18:bf:a3:60,bridge=vmbr1'')],
      IPv4Config = Some [''10.10.10.10-10.10.10.20''],
      IPv6Config = None,
      cluster_DNSServers = [''8.8.8.8'', ''8.8.4.4''],
      calls = []\<rparr>"

text \<open>
  An additional device \<^verbatim>\<open>net1\<close> with an IPv4 pool only and a DNS override of its own.
\<close>

definition exampleNic :: AdditionalNetworkDevice where
  "exampleNic =
     \<lparr>nic_Name = ''net1'', nic_IPv4PoolRef = Some ''pool-v4'', nic_IPv6PoolRef = None,
      nic_DNSServers = [''1.1.1.1'']\<rparr>"

text \<open>The machine after a pass that has provided the bootstrap data.\<close>

definition providedScope :: MachineScope where
  "providedScope =
     exampleScope
       \<lparr>ProxmoxMachine := exampleMachine\<lparr>BootstrapDataProvided := Some True\<rparr>,
        calls :=
          [CallGetBootstrapSecret,
           CallFindIPAddress ''net0-inet'',
           CallInject ''#cloud-config'' (''56603c36-46b9-4608-90ae-c731c15eae64'', ''machine-0'')
             [\<lparr>MacAddress = ''92:60:a0:5b:22:c2'', IPAddress = ''10.10.10.12/24'',
               IPV6Address = [], Gateway = ''10.10.10.1'', Gateway6 = [],
               DNSServers = [''8.8.8.8'', ''8.8.4.4'']\<rparr>]]\<rparr>"

text \<open>
  Variations of the machine: no IP address yet, a device \<^verbatim>\<open>net1\<close> whose line has no MAC
  address, no device at all, no secret reference, and a cluster with both pools.
\<close>

definition noAddressScope :: MachineScope where
  "noAddressScope = exampleScope\<lparr>ProxmoxMachine := exampleMachine\<lparr>IPAddresses := []\<rparr>\<rparr>"

definition noMacScope :: MachineScope where
  "noMacScope =
     exampleScope\<lparr>MergeNets := [(''net0'', ''virtio=92:60:a0:5b:22:c2,bridge=vmbr0''),
                                (''net1'', ''bridge'')]\<rparr>"

definition noDevicesScope :: MachineScope where
  "noDevicesScope = exampleScope\<lparr>MergeNets := []\<rparr>"

definition noSecretScope :: MachineScope where
  "noSecretScope = exampleScope\<lparr>DataSecretName := None\<rparr>"


text \<open>
  Two environments whose secret store fails: the secret cannot be fetched, and the
  secret has no \<^verbatim>\<open>value\<close> key.
\<close>

definition secretMissingEnv :: env where
  "secretMissingEnv = exampleEnv\<lparr>GetBootstrapSecret := (\<lambda>_. Inl (New ''secret not found''))\<rparr>"

definition valueMissingEnv :: env where
  "valueMissingEnv = exampleEnv\<lparr>GetBootstrapSecret := (\<lambda>_. Inr [''format'' \<mapsto> ''cloud-config''])\<rparr>"

text \<open>
  An additional device \<^verbatim>\<open>net1\<close> with an IPv6 pool only, and one with both pools; each
  has the DNS override of \<open>exampleNic\<close>.
\<close>

definition exampleNic6 :: AdditionalNetworkDevice where
  "exampleNic6 = exampleNic\<lparr>nic_IPv4PoolRef := None, nic_IPv6PoolRef := Some ''pool-v6''\<rparr>"

definition exampleNicDual :: AdditionalNetworkDevice where
  "exampleNicDual = exampleNic\<lparr>nic_IPv6PoolRef := Some ''pool-v6''\<rparr>"




section \<open>Frame: what the functions leave alone\<close>














lemma Deref_flag:
  "Deref (BootstrapDataProvided (ProxmoxMachine ms)) False
     \<longleftrightarrow> BootstrapDataProvided (ProxmoxMachine ms) = Some True"
  by (cases "BootstrapDataProvided (ProxmoxMachine ms)") (auto simp: Deref_def)

section \<open>The reconciler, step by step\<close>

subsection \<open>Step 1: the idempotency guard\<close>

lemma reconcile_guard:
  "BootstrapDataProvided (ProxmoxMachine ms) = Some True \<Longrightarrow>
   reconcileBootstrapData env ms = ((False, None), ms)"
  by (simp add: reconcileBootstrapData_def Deref_def)

lemma reconcilePasses_guard:
  "BootstrapDataProvided (ProxmoxMachine ms) = Some True \<Longrightarrow>
   reconcilePasses envs ms = (replicate (length envs) (False, None), ms)"
  by (induction envs) (simp_all add: reconcile_guard)

text \<open>
  Claim C1. When \<^verbatim>\<open>BootstrapDataProvided\<close> is already true, a pass returns
  \<open>(requeue = false, err = nil)\<close> and the machine scope after the pass is the one before
  it: no field has changed and no call has been appended to the trace, so no secret was
  fetched, no address looked up and nothing injected. The same holds for any number of
  passes in a row, whatever the collaborators would have answered at each of them.
\<close>

theorem already_provisioned_is_noop:
  assumes "BootstrapDataProvided (ProxmoxMachine ms) = Some True"
  shows "reconcileBootstrapData env ms = ((False, None), ms)
       \<and> reconcilePasses envs ms = (replicate (length envs) (False, None), ms)"
  using assms by (simp add: reconcile_guard reconcilePasses_guard)

theorem already_provisioned_is_noop_witness:
  "BootstrapDataProvided (ProxmoxMachine providedScope) = Some True
   \<and> reconcileBootstrapData exampleEnv providedScope = ((False, None), providedScope)
   \<and> reconcilePasses [exampleEnv, exampleEnv, exampleEnv] providedScope
       = ([(False, None), (False, None), (False, None)], providedScope)"
proof -
  have g: "BootstrapDataProvided (ProxmoxMachine providedScope) = Some True"
    by (simp add: providedScope_def)
  show ?thesis
    using g already_provisioned_is_noop
            [OF g, of exampleEnv "[exampleEnv, exampleEnv, exampleEnv]"]
    by simp
qed

subsection \<open>Step 2: no IP address yet\<close>

text \<open>
  Claim C7. When the guard is false and the machine has no IP address, a pass marks
  the condition \<^verbatim>\<open>VMProvisioned\<close> false with the reason
  \<^verbatim>\<open>WaitingForStaticIPAllocation\<close>, warning severity and the message "no ip address",
  and returns \<open>(requeue = true, err = nil)\<close>; nothing else changes, and the trace of
  collaborator calls is the one before the pass.
\<close>

theorem no_ip_address_requeues:
  assumes "BootstrapDataProvided (ProxmoxMachine ms) \<noteq> Some True"
    and "\<not> machineHasIPAddress env (ProxmoxMachine ms)"
  shows "reconcileBootstrapData env ms =
           ((True, None),
            markFalse env VMProvisionedCondition WaitingForStaticIPAllocationReason
              ConditionSeverityWarning ''no ip address'' ms)
       \<and> calls (snd (reconcileBootstrapData env ms)) = calls ms"
  using assms
  by (auto simp: reconcileBootstrapData_def Deref_flag markFalse_def)

theorem no_ip_address_requeues_witness:
  "BootstrapDataProvided (ProxmoxMachine noAddressScope) \<noteq> Some True
   \<and> \<not> machineHasIPAddress exampleEnv (ProxmoxMachine noAddressScope)
   \<and> fst (reconcileBootstrapData exampleEnv noAddressScope) = (True, None)
   \<and> Conditions (ProxmoxMachine (snd (reconcileBootstrapData exampleEnv noAddressScope)))
       = [\<lparr>cond_Type = VMProvisionedCondition, cond_Status = False,
            cond_Reason = WaitingForStaticIPAllocationReason,
            cond_Severity = ConditionSeverityWarning, cond_Message = ''no ip address''\<rparr>]
   \<and> calls (snd (reconcileBootstrapData exampleEnv noAddressScope)) = []"
proof -
  have g: "BootstrapDataProvided (ProxmoxMachine noAddressScope) \<noteq> Some True"
    by (simp add: noAddressScope_def exampleScope_def exampleMachine_def)
  have i: "\<not> machineHasIPAddress exampleEnv (ProxmoxMachine noAddressScope)"
    by (simp add: noAddressScope_def exampleScope_def exampleMachine_def exampleEnv_def)
  show ?thesis
    using g i no_ip_address_requeues [OF g i]
    by (simp add: markFalse_def noAddressScope_def exampleScope_def exampleMachine_def
                  exampleEnv_def)
qed

subsection \<open>Step 3: a device without MAC address, or no device\<close>

lemma allHaveMac_iff:
  "allHaveMac env nets ds \<longleftrightarrow>
     (\<forall>d \<in> set ds. extractMACAddress env (netsLookup nets d) \<noteq> [])"
  by (induction ds) auto

lemma vmHasMacAddresses_iff:
  "vmHasMacAddresses env ms \<longleftrightarrow>
     MergeNets ms \<noteq> [] \<and>
     (\<forall>d \<in> fst ` set (MergeNets ms).
        extractMACAddress env (netsLookup (MergeNets ms) d) \<noteq> [])"
  by (simp add: vmHasMacAddresses_def Let_def allHaveMac_iff)

lemma reconcile_no_mac:
  assumes "BootstrapDataProvided (ProxmoxMachine ms) \<noteq> Some True"
    and "machineHasIPAddress env (ProxmoxMachine ms)"
    and "\<not> vmHasMacAddresses env ms"
  shows "reconcileBootstrapData env ms = ((True, None), ms)"
  using assms by (simp add: reconcileBootstrapData_def Deref_flag)

text \<open>
  Claim C8. When the guard is false, the machine has an IP address and some device \<open>d\<close>
  of the VM's network map has a configuration line from which no MAC address can be
  extracted, a pass returns \<open>(requeue = true, err = nil)\<close> and leaves the machine scope as
  it was; in particular the conditions of the machine are unchanged.
\<close>

theorem missing_mac_requeues_without_condition:
  assumes "BootstrapDataProvided (ProxmoxMachine ms) \<noteq> Some True"
    and "machineHasIPAddress env (ProxmoxMachine ms)"
    and "d \<in> fst ` set (MergeNets ms)"
    and "extractMACAddress env (netsLookup (MergeNets ms) d) = []"
  shows "reconcileBootstrapData env ms = ((True, None), ms)
       \<and> Conditions (ProxmoxMachine (snd (reconcileBootstrapData env ms)))
           = Conditions (ProxmoxMachine ms)"
proof -
  have "\<not> vmHasMacAddresses env ms"
    using assms(3,4) by (auto simp: vmHasMacAddresses_iff)
  then show ?thesis
    using assms(1,2) by (simp add: reconcile_no_mac)
qed

theorem missing_mac_requeues_without_condition_witness:
  "BootstrapDataProvided (ProxmoxMachine noMacScope) \<noteq> Some True
   \<and> machineHasIPAddress exampleEnv (ProxmoxMachine noMacScope)
   \<and> ''net1'' \<in> fst ` set (MergeNets noMacScope)
   \<and> extractMACAddress exampleEnv (netsLookup (MergeNets noMacScope) ''net1'') = []
   \<and> reconcileBootstrapData exampleEnv noMacScope = ((True, None), noMacScope)
   \<and> Conditions (ProxmoxMachine (snd (reconcileBootstrapData exampleEnv noMacScope))) = []"
proof -
  have g: "BootstrapDataProvided (ProxmoxMachine noMacScope) \<noteq> Some True"
    by (simp add: noMacScope_def exampleScope_def exampleMachine_def)
  have i: "machineHasIPAddress exampleEnv (ProxmoxMachine noMacScope)"
    by (simp add: noMacScope_def exampleScope_def exampleMachine_def exampleEnv_def)
  have d: "''net1'' \<in> fst ` set (MergeNets noMacScope)"
    by (simp add: noMacScope_def exampleScope_def)
  have m: "extractMACAddress exampleEnv (netsLookup (MergeNets noMacScope) ''net1'') = []"
    by (simp add: noMacScope_def exampleScope_def exampleEnv_def netsLookup_def)
  have c: "Conditions (ProxmoxMachine noMacScope) = []"
    by (simp add: noMacScope_def exampleScope_def exampleMachine_def)
  show ?thesis
    using g i d m c missing_mac_requeues_without_condition [OF g i d m] by simp
qed

text \<open>
  Claim C10. When the guard is false, the machine has an IP address and the VM's
  network map is empty, a pass returns \<open>(requeue = true, err = nil)\<close> and leaves the
  machine scope as it was, as it does for a device without MAC address, although the
  map holds no device that lacks one.
\<close>

theorem no_devices_requeues:
  assumes "BootstrapDataProvided (ProxmoxMachine ms) \<noteq> Some True"
    and "machineHasIPAddress env (ProxmoxMachine ms)"
    and "MergeNets ms = []"
  shows "reconcileBootstrapData env ms = ((True, None), ms)
       \<and> \<not> (\<exists>d \<in> fst ` set (MergeNets ms).
               extractMACAddress env (netsLookup (MergeNets ms) d) = [])"
proof -
  have "\<not> vmHasMacAddresses env ms"
    using assms(3) by (simp add: vmHasMacAddresses_def)
  then show ?thesis
    using assms by (simp add: reconcile_no_mac)
qed

theorem no_devices_requeues_witness:
  "BootstrapDataProvided (ProxmoxMachine noDevicesScope) \<noteq> Some True
   \<and> machineHasIPAddress exampleEnv (ProxmoxMachine noDevicesScope)
   \<and> MergeNets noDevicesScope = []
   \<and> reconcileBootstrapData exampleEnv noDevicesScope = ((True, None), noDevicesScope)"
proof -
  have g: "BootstrapDataProvided (ProxmoxMachine noDevicesScope) \<noteq> Some True"
    by (simp add: noDevicesScope_def exampleScope_def exampleMachine_def)
  have i: "machineHasIPAddress exampleEnv (ProxmoxMachine noDevicesScope)"
    by (simp add: noDevicesScope_def exampleScope_def exampleMachine_def exampleEnv_def)
  have n: "MergeNets noDevicesScope = []"
    by (simp add: noDevicesScope_def)
  show ?thesis
    using g i n no_devices_requeues [OF g i n] by simp
qed

subsection \<open>Step 4: the bootstrap payload cannot be retrieved\<close>

lemma getBootstrapData_fails:
  assumes "DataSecretName ms = None
         \<or> (\<exists>e. GetBootstrapSecret env (calls ms) = Inl e)
         \<or> (\<exists>secret. GetBootstrapSecret env (calls ms) = Inr secret \<and> secret ''value'' = None)"
  shows "\<exists>err ms1. getBootstrapData env ms = (Inl err, ms1)
           \<and> (ms1 = ms \<or> ms1 = record_call CallGetBootstrapSecret ms)"
  using assms
  by (auto simp: getBootstrapData_def Let_def split: option.splits sum.splits)

text \<open>
  Claim C6. Let the guard be false, the machine have an IP address and every device a
  MAC address, so that the pass reaches the retrieval of the payload. When the machine
  has no bootstrap data secret reference, or the fetch of the secret fails, or the
  secret has no \<^verbatim>\<open>value\<close> key, \<^verbatim>\<open>getBootstrapData\<close> returns an error \<open>err\<close>, and the
  pass marks the condition \<^verbatim>\<open>VMProvisioned\<close> false with the reason \<^verbatim>\<open>CloningFailed\<close>
  and the error's message, and returns \<open>(requeue = false, err)\<close>. Besides the condition
  the scope is unchanged, up to the fetch recorded in the trace when one was made.
\<close>

theorem payload_failure_marks_cloning_failed:
  assumes "BootstrapDataProvided (ProxmoxMachine ms) \<noteq> Some True"
    and "machineHasIPAddress env (ProxmoxMachine ms)"
    and "vmHasMacAddresses env ms"
    and "DataSecretName ms = None
         \<or> (\<exists>e. GetBootstrapSecret env (calls ms) = Inl e)
         \<or> (\<exists>secret. GetBootstrapSecret env (calls ms) = Inr secret \<and> secret ''value'' = None)"
  shows "\<exists>err ms1.
           getBootstrapData env ms = (Inl err, ms1)
         \<and> (ms1 = ms \<or> ms1 = record_call CallGetBootstrapSecret ms)
         \<and> reconcileBootstrapData env ms =
             ((False, Some err),
              markFalse env VMProvisionedCondition CloningFailedReason
                ConditionSeverityWarning (Error err) ms1)"
proof -
  obtain err ms1 where g: "getBootstrapData env ms = (Inl err, ms1)"
    and f: "ms1 = ms \<or> ms1 = record_call CallGetBootstrapSecret ms"
    using getBootstrapData_fails [OF assms(4)] by blast
  have "reconcileBootstrapData env ms =
             ((False, Some err),
              markFalse env VMProvisionedCondition CloningFailedReason
                ConditionSeverityWarning (Error err) ms1)"
    using assms(1,2,3) g by (simp add: reconcileBootstrapData_def Deref_flag)
  with g f show ?thesis by blast
qed

theorem payload_failure_marks_cloning_failed_witness:
  "fst (reconcileBootstrapData exampleEnv noSecretScope)
     = (False, Some (New ''machine has no bootstrap data''))
   \<and> map cond_Reason (Conditions (ProxmoxMachine
         (snd (reconcileBootstrapData exampleEnv noSecretScope)))) = [CloningFailedReason]
   \<and> fst (reconcileBootstrapData secretMissingEnv exampleScope)
     = (False, Some (Wrap (New ''secret not found'')
                       ''failed to retrieve bootstrap data secret''))
   \<and> map cond_Reason (Conditions (ProxmoxMachine
         (snd (reconcileBootstrapData secretMissingEnv exampleScope)))) = [CloningFailedReason]
   \<and> fst (reconcileBootstrapData valueMissingEnv exampleScope)
     = (False, Some (New ''error retrieving bootstrap data: secret `value` key is missing''))
   \<and> map cond_Reason (Conditions (ProxmoxMachine
         (snd (reconcileBootstrapData valueMissingEnv exampleScope)))) = [CloningFailedReason]"
proof -
  have g: "BootstrapDataProvided (ProxmoxMachine noSecretScope) \<noteq> Some True"
      "BootstrapDataProvided (ProxmoxMachine exampleScope) \<noteq> Some True"
    by (simp_all add: noSecretScope_def exampleScope_def exampleMachine_def)
  have i: "machineHasIPAddress exampleEnv (ProxmoxMachine noSecretScope)"
      "machineHasIPAddress secretMissingEnv (ProxmoxMachine exampleScope)"
      "machineHasIPAddress valueMissingEnv (ProxmoxMachine exampleScope)"
    by (simp_all add: noSecretScope_def exampleScope_def exampleMachine_def exampleEnv_def
          secretMissingEnv_def valueMissingEnv_def)
  have m: "vmHasMacAddresses exampleEnv noSecretScope"
      "vmHasMacAddresses secretMissingEnv exampleScope"
      "vmHasMacAddresses valueMissingEnv exampleScope"
    by (simp_all add: vmHasMacAddresses_def noSecretScope_def exampleScope_def exampleEnv_def
          netsLookup_def secretMissingEnv_def valueMissingEnv_def)
  have a: "DataSecretName noSecretScope = None"
    by (simp add: noSecretScope_def)
  have b: "\<exists>e. GetBootstrapSecret secretMissingEnv (calls exampleScope) = Inl e"
    by (simp add: secretMissingEnv_def)
  have c: "\<exists>secret. GetBootstrapSecret valueMissingEnv (calls exampleScope) = Inr secret
                  \<and> secret ''value'' = None"
    by (simp add: valueMissingEnv_def)
  have x: "getBootstrapData exampleEnv noSecretScope
             = (Inl (New ''machine has no bootstrap data''), noSecretScope)"
    by (simp add: getBootstrapData_def noSecretScope_def)
  have y: "getBootstrapData secretMissingEnv exampleScope
             = (Inl (Wrap (New ''secret not found'') ''failed to retrieve bootstrap data secret''),
                record_call CallGetBootstrapSecret exampleScope)"
    by (simp add: getBootstrapData_def secretMissingEnv_def exampleScope_def)
  have z: "getBootstrapData valueMissingEnv exampleScope
             = (Inl (New ''error retrieving bootstrap data: secret `value` key is missing''),
                record_call CallGetBootstrapSecret exampleScope)"
    by (simp add: getBootstrapData_def valueMissingEnv_def exampleScope_def)
  have e: "MarkFalse secretMissingEnv = MarkFalse exampleEnv"
      "MarkFalse valueMissingEnv = MarkFalse exampleEnv"
    by (simp_all add: secretMissingEnv_def valueMissingEnv_def)
  have 1: "fst (reconcileBootstrapData exampleEnv noSecretScope)
             = (False, Some (New ''machine has no bootstrap data''))
         \<and> map cond_Reason (Conditions (ProxmoxMachine
               (snd (reconcileBootstrapData exampleEnv noSecretScope)))) = [CloningFailedReason]"
    using payload_failure_marks_cloning_failed [OF g(1) i(1) m(1)] a x
    by (auto simp: markFalse_def exampleEnv_def noSecretScope_def exampleScope_def
                   exampleMachine_def)
  have 2: "fst (reconcileBootstrapData secretMissingEnv exampleScope)
             = (False, Some (Wrap (New ''secret not found'')
                               ''failed to retrieve bootstrap data secret''))
         \<and> map cond_Reason (Conditions (ProxmoxMachine
               (snd (reconcileBootstrapData secretMissingEnv exampleScope))))
             = [CloningFailedReason]"
    using payload_failure_marks_cloning_failed [OF g(2) i(2) m(2)] b y
    by (auto simp: markFalse_def e exampleEnv_def record_call_def exampleScope_def
                   exampleMachine_def)
  have 3: "fst (reconcileBootstrapData valueMissingEnv exampleScope)
             = (False, Some (New
                  ''error retrieving bootstrap data: secret `value` key is missing''))
         \<and> map cond_Reason (Conditions (ProxmoxMachine
               (snd (reconcileBootstrapData valueMissingEnv exampleScope))))
             = [CloningFailedReason]"
    using payload_failure_marks_cloning_failed [OF g(2) i(3) m(3)] c z
    by (auto simp: markFalse_def e exampleEnv_def record_call_def exampleScope_def
                   exampleMachine_def)
  show ?thesis
    using 1 2 3 by simp
qed

subsection \<open>The idempotency guard over a pass\<close>





section \<open>The assembler\<close>

subsection \<open>The default device\<close>

text \<open>A record the resolver returns has a MAC address: it fails when it finds none.\<close>

lemma resolver_mac_nonempty:
  "getNetworkConfigDataForDevice env ms device = (Inr conf, ms1) \<Longrightarrow> MacAddress conf \<noteq> []"
  by (auto simp: getNetworkConfigDataForDevice_def Let_def split: if_splits sum.splits)




subsection \<open>Additional devices and the DNS override\<close>

text \<open>
  What the loop body returns for a device with one pool only: the resolver's record as
  it is. The DNS override was written to the struct \<open>config\<close> pointed to before
  \<^verbatim>\<open>config = conf\<close>, so the record keeps the DNS servers of the cluster.
\<close>

lemma resolver_dns:
  "getNetworkConfigDataForDevice env ms device = (Inr conf, ms1) \<Longrightarrow>
   DNSServers conf = cluster_DNSServers ms"
  by (auto simp: getNetworkConfigDataForDevice_def Let_def split: if_splits sum.splits)

lemma additional_ipv4_only:
  assumes "nic_IPv4PoolRef nic \<noteq> None" and "nic_IPv6PoolRef nic = None"
    and "getNetworkConfigDataForDevice env ms (nic_Name nic @ ''-'' @ DefaultSuffix env)
           = (Inr conf, ms1)"
  shows "additionalNetworkDevice env ms nic = (Inr conf, ms1)"
  using assms by (simp add: additionalNetworkDevice_def)

lemma additional_ipv6_only:
  assumes "nic_IPv4PoolRef nic = None" and "nic_IPv6PoolRef nic \<noteq> None"
    and "getNetworkConfigDataForDevice env ms (nic_Name nic @ ''-'' @ DefaultSuffix env @ ''6'')
           = (Inr conf, ms1)"
  shows "additionalNetworkDevice env ms nic = (Inr conf, ms1)"
  using assms by (simp add: additionalNetworkDevice_def zeroNetworkConfigData_def Let_def)

text \<open>With both pools and one MAC address the override reaches the record.\<close>

lemma additional_dual_stack:
  assumes "nic_IPv4PoolRef nic \<noteq> None" and "nic_IPv6PoolRef nic \<noteq> None"
    and "getNetworkConfigDataForDevice env ms (nic_Name nic @ ''-'' @ DefaultSuffix env)
           = (Inr conf4, ms1)"
    and "getNetworkConfigDataForDevice env ms1 (nic_Name nic @ ''-'' @ DefaultSuffix env @ ''6'')
           = (Inr conf6, ms2)"
    and "MacAddress conf4 = MacAddress conf6"
  shows "additionalNetworkDevice env ms nic =
           (Inr (conf4\<lparr>DNSServers := (if nic_DNSServers nic \<noteq> [] then nic_DNSServers nic
                                        else DNSServers conf4),
                       IPV6Address := IPAddress conf6, Gateway6 := Gateway conf6\<rparr>), ms2)"
  using assms resolver_mac_nonempty [OF assms(3)]
  by (simp add: additionalNetworkDevice_def Let_def)

text \<open>
  Claim C2 fails on the code. The device \<open>exampleNic\<close> has an IPv4 pool only and the
  DNS override \<^verbatim>\<open>1.1.1.1\<close>; the cluster's DNS servers are \<^verbatim>\<open>8.8.8.8\<close> and \<^verbatim>\<open>8.8.4.4\<close>.
  The record \<^verbatim>\<open>getAdditionalNetworkDevices\<close> returns for it lists the cluster's DNS
  servers, not the override. The same happens for \<open>exampleNic6\<close>, which has an IPv6 pool
  only. For \<open>exampleNicDual\<close>, with both pools, the record lists the override.
\<close>

theorem dns_override_lost_for_single_family:
  "nic_DNSServers exampleNic = [''1.1.1.1'']
   \<and> fst (getAdditionalNetworkDevices exampleEnv exampleScope
            \<lparr>AdditionalDevices = [exampleNic]\<rparr>)
       = Inr [\<lparr>MacAddress = ''b4:87:18:bf:a3:60'', IPAddress = ''192.168.1.7/24'',
               IPV6Address = [], Gateway = ''192.168.1.1'', Gateway6 = [],
               DNSServers = [''8.8.8.8'', ''8.8.4.4'']\<rparr>]
   \<and> fst (getAdditionalNetworkDevices exampleEnv exampleScope
            \<lparr>AdditionalDevices = [exampleNic6]\<rparr>)
       = Inr [\<lparr>MacAddress = ''b4:87:18:bf:a3:60'', IPAddress = ''fd00::7/64'',
               IPV6Address = [], Gateway = ''fd00::1'', Gateway6 = [],
               DNSServers = [''8.8.8.8'', ''8.8.4.4'']\<rparr>]
   \<and> fst (getAdditionalNetworkDevices exampleEnv exampleScope
            \<lparr>AdditionalDevices = [exampleNicDual]\<rparr>)
       = Inr [\<lparr>MacAddress = ''b4:87:18:bf:a3:60'', IPAddress = ''192.168.1.7/24'',
               IPV6Address = ''fd00::7/64'', Gateway = ''192.168.1.1'',
               Gateway6 = ''fd00::1'', DNSServers = [''1.1.1.1'']\<rparr>]"
  by (simp add: getAdditionalNetworkDevices_def additionalNetworkDevice_def
        getNetworkConfigDataForDevice_def exampleEnv_def exampleScope_def exampleNic_def
        exampleNic6_def exampleNicDual_def netsLookup_def record_call_def
        zeroNetworkConfigData_def Let_def)

section \<open>The renderer\<close>

subsection \<open>Validation\<close>

lemma validateDevices_append:
  "validateDevices pre = None \<Longrightarrow>
   validateDevices (pre @ d # rest) =
     (case validateDevice d of Some e \<Rightarrow> Some e | None \<Rightarrow> validateDevices rest)"
  by (induction pre) (auto split: option.splits)

lemma Render_first_invalid:
  "validateDevices pre = None \<Longrightarrow> validateDevice d = Some e \<Longrightarrow>
   Render (pre @ d # rest) = Inl e"
  by (simp add: Render_def validate_def validateDevices_append)

text \<open>An address without any \<^verbatim>\<open>/\<close>, such as a bare dotted quad, has no prefix length.\<close>

lemma bare_address_has_no_prefix: "CHR ''/'' \<notin> set addr \<Longrightarrow> \<not> hasPrefixLength addr"
proof -
  assume "CHR ''/'' \<notin> set addr"
  then have d: "dropWhile (\<lambda>c. c \<noteq> CHR ''/'') addr = []"
    by (induction addr) auto
  show ?thesis unfolding hasPrefixLength_def d by simp
qed

text \<open>
  Claim C4. \<^verbatim>\<open>Render\<close> fails with \<^verbatim>\<open>ErrMissingNetworkConfigData\<close> on the empty list.
  Let \<open>d\<close> be the first device that breaks a rule: the devices \<open>pre\<close> before it pass the
  validation, any devices \<open>rest\<close> follow it. Then \<^verbatim>\<open>Render\<close> fails with
  \<^item> \<^verbatim>\<open>ErrMissingMacAddress\<close> when the MAC address of \<open>d\<close> is empty, whatever its other
    fields are;
  \<^item> \<^verbatim>\<open>ErrMissingIPAddress\<close> when \<open>d\<close> has a MAC address and neither an IPv4 nor an
    IPv6 address;
  \<^item> \<^verbatim>\<open>ErrMalformedIPAddress\<close> when \<open>d\<close> has a MAC address and an IPv4 address
    without \<^verbatim>\<open>/length\<close> suffix;
  \<^item> \<^verbatim>\<open>ErrMissingGateway\<close> when \<open>d\<close> has a MAC address and an IPv4 address with
    \<^verbatim>\<open>/length\<close> suffix and no IPv4 gateway;
  \<^item> \<^verbatim>\<open>ErrMalformedIPAddress\<close> and \<^verbatim>\<open>ErrMissingGateway\<close> in the same way for the IPv6
    address, when the IPv4 family of \<open>d\<close> breaks no rule.
\<close>

theorem render_validation_errors:
  assumes "validateDevices pre = None"
  shows "Render [] = Inl ErrMissingNetworkConfigData
       \<and> (MacAddress d = [] \<longrightarrow> Render (pre @ d # rest) = Inl ErrMissingMacAddress)
       \<and> (MacAddress d \<noteq> [] \<and> IPAddress d = [] \<and> IPV6Address d = [] \<longrightarrow>
            Render (pre @ d # rest) = Inl ErrMissingIPAddress)
       \<and> (MacAddress d \<noteq> [] \<and> IPAddress d \<noteq> [] \<and> \<not> hasPrefixLength (IPAddress d) \<longrightarrow>
            Render (pre @ d # rest) = Inl ErrMalformedIPAddress)
       \<and> (MacAddress d \<noteq> [] \<and> IPAddress d \<noteq> [] \<and> hasPrefixLength (IPAddress d)
            \<and> Gateway d = [] \<longrightarrow>
            Render (pre @ d # rest) = Inl ErrMissingGateway)
       \<and> (MacAddress d \<noteq> [] \<and> validateFamily (IPAddress d) (Gateway d) = None
            \<and> IPV6Address d \<noteq> [] \<and> \<not> hasPrefixLength (IPV6Address d) \<longrightarrow>
            Render (pre @ d # rest) = Inl ErrMalformedIPAddress)
       \<and> (MacAddress d \<noteq> [] \<and> validateFamily (IPAddress d) (Gateway d) = None
            \<and> IPV6Address d \<noteq> [] \<and> hasPrefixLength (IPV6Address d) \<and> Gateway6 d = [] \<longrightarrow>
            Render (pre @ d # rest) = Inl ErrMissingGateway)"
proof -
  have e: "Render [] = Inl ErrMissingNetworkConfigData"
    by (simp add: Render_def validate_def)
  have r: "validateDevice d = Some x \<Longrightarrow> Render (pre @ d # rest) = Inl x" for x
    using assms by (rule Render_first_invalid)
  have 1: "MacAddress d = [] \<Longrightarrow> validateDevice d = Some ErrMissingMacAddress"
    by (simp add: validateDevice_def)
  have 2: "MacAddress d \<noteq> [] \<and> IPAddress d = [] \<and> IPV6Address d = [] \<Longrightarrow>
           validateDevice d = Some ErrMissingIPAddress"
    by (simp add: validateDevice_def)
  have 3: "MacAddress d \<noteq> [] \<and> IPAddress d \<noteq> [] \<and> \<not> hasPrefixLength (IPAddress d) \<Longrightarrow>
           validateDevice d = Some ErrMalformedIPAddress"
    by (simp add: validateDevice_def validateFamily_def)
  have 4: "MacAddress d \<noteq> [] \<and> IPAddress d \<noteq> [] \<and> hasPrefixLength (IPAddress d)
           \<and> Gateway d = [] \<Longrightarrow> validateDevice d = Some ErrMissingGateway"
    by (simp add: validateDevice_def validateFamily_def)
  have 5: "MacAddress d \<noteq> [] \<and> validateFamily (IPAddress d) (Gateway d) = None
           \<and> IPV6Address d \<noteq> [] \<and> \<not> hasPrefixLength (IPV6Address d) \<Longrightarrow>
           validateDevice d = Some ErrMalformedIPAddress"
    by (simp add: validateDevice_def validateFamily_def)
  have 6: "MacAddress d \<noteq> [] \<and> validateFamily (IPAddress d) (Gateway d) = None
           \<and> IPV6Address d \<noteq> [] \<and> hasPrefixLength (IPV6Address d) \<and> Gateway6 d = [] \<Longrightarrow>
           validateDevice d = Some ErrMissingGateway"
    by (simp add: validateDevice_def validateFamily_def)
  show ?thesis
    using e r [OF 1] r [OF 2] r [OF 3] r [OF 4] r [OF 5] r [OF 6] by blast
qed

text \<open>
  The cases of the test and some more, each after the valid device of the test and
  before a device that is invalid as well: no MAC address and a bare IPv4 address (the
  MAC rule wins), no address, the bare address \<^verbatim>\<open>10.10.10.12\<close>, no gateway, a bare IPv6
  address, and no IPv6 gateway.
\<close>

theorem render_validation_errors_witness:
  "validateDevices [validNic] = None
   \<and> Render [] = Inl ErrMissingNetworkConfigData
   \<and> Render ([validNic] @ validNic\<lparr>MacAddress := [], IPAddress := ''10.10.10.12''\<rparr>
                # [zeroNetworkConfigData]) = Inl ErrMissingMacAddress
   \<and> Render ([validNic] @ validNic\<lparr>IPAddress := []\<rparr> # [zeroNetworkConfigData])
       = Inl ErrMissingIPAddress
   \<and> Render ([validNic] @ validNic\<lparr>IPAddress := ''10.10.10.12'', Gateway := []\<rparr>
                # [zeroNetworkConfigData]) = Inl ErrMalformedIPAddress
   \<and> Render ([validNic] @ validNic\<lparr>Gateway := []\<rparr> # [zeroNetworkConfigData])
       = Inl ErrMissingGateway
   \<and> Render ([validNic] @ validNic\<lparr>IPV6Address := ''2001:db8::1''\<rparr>
                # [zeroNetworkConfigData]) = Inl ErrMalformedIPAddress
   \<and> Render ([validNic] @ validNic\<lparr>IPAddress := [], IPV6Address := ''2001:db8::1/64''\<rparr>
                # [zeroNetworkConfigData]) = Inl ErrMissingGateway"
proof -
  have v: "validateDevices [validNic] = None"
    by (simp add: validateDevice_def validateFamily_def hasPrefixLength_def validNic_def)
  have f: "validateFamily (IPAddress validNic) (Gateway validNic) = None"
      "validateFamily [] g = None" for g
    by (simp_all add: validateFamily_def hasPrefixLength_def validNic_def)
  have h: "hasPrefixLength ''10.10.10.12/24''" "\<not> hasPrefixLength ''10.10.10.12''"
      "\<not> hasPrefixLength ''2001:db8::1''" "hasPrefixLength ''2001:db8::1/64''"
    by (simp_all add: hasPrefixLength_def)
  show ?thesis
    using v f h
      render_validation_errors [OF v,
        of "validNic\<lparr>MacAddress := [], IPAddress := ''10.10.10.12''\<rparr>" "[zeroNetworkConfigData]"]
      render_validation_errors [OF v, of "validNic\<lparr>IPAddress := []\<rparr>" "[zeroNetworkConfigData]"]
      render_validation_errors [OF v,
        of "validNic\<lparr>IPAddress := ''10.10.10.12'', Gateway := []\<rparr>" "[zeroNetworkConfigData]"]
      render_validation_errors [OF v, of "validNic\<lparr>Gateway := []\<rparr>" "[zeroNetworkConfigData]"]
      render_validation_errors [OF v,
        of "validNic\<lparr>IPV6Address := ''2001:db8::1''\<rparr>" "[zeroNetworkConfigData]"]
      render_validation_errors [OF v,
        of "validNic\<lparr>IPAddress := [], IPV6Address := ''2001:db8::1/64''\<rparr>"
           "[zeroNetworkConfigData]"]
    by (simp add: validNic_def)
qed

subsection \<open>The rendered document\<close>

text \<open>
  Claim C9. For the single device with MAC address \<^verbatim>\<open>92:60:a0:5b:22:c2\<close>, address
  \<^verbatim>\<open>10.10.10.12/24\<close>, gateway \<^verbatim>\<open>10.10.10.1\<close> and DNS servers \<^verbatim>\<open>8.8.8.8\<close> and
  \<^verbatim>\<open>8.8.4.4\<close>, \<^verbatim>\<open>Render\<close> returns, character by character, the document
  \<^verbatim>\<open>expectedValidNetworkConfig\<close> of the test: one interface \<^verbatim>\<open>eth0\<close>, \<^verbatim>\<open>dhcp4: 'no'\<close>,
  one address, one default route via \<^verbatim>\<open>10.10.10.1\<close> and the two name servers in
  order. For the same device without DNS servers it returns
  \<^verbatim>\<open>expectedValidNetworkConfigWithoutDNS\<close>, which is the first document without its
  last four lines, the name server block.
\<close>

theorem render_valid_network_config:
  "Render [validNic] = Inr expectedValidNetworkConfig
   \<and> Render [validNicWithoutDNS] = Inr expectedValidNetworkConfigWithoutDNS
   \<and> expectedValidNetworkConfig =
       expectedValidNetworkConfigWithoutDNS @ [CHR 0x0A]
       @ joinLines [''      nameservers:'', ''        addresses:'', ''          - 8.8.8.8'',
                    ''          - 8.8.4.4'']"
  by (simp add: Render_def validate_def validateDevice_def validateFamily_def
        hasPrefixLength_def validNic_def validNicWithoutDNS_def renderDevice_def
        expectedValidNetworkConfig_def expectedValidNetworkConfigWithoutDNS_def)

subsection \<open>The cases of the test\<close>

text \<open>
  The modelled renderer gives, on each of the eleven cases of
  \<^verbatim>\<open>TestNetworkConfig_Render\<close>, the document or the error the test expects.
\<close>

lemma Render_test_documents:
  "Render [validNic] = Inr expectedValidNetworkConfig"
  "Render [validNicWithoutDNS] = Inr expectedValidNetworkConfigWithoutDNS"
  "Render [validNic,
           validNic\<lparr>MacAddress := ''b4:87:18:bf:a3:60'', IPAddress := ''196.168.100.124/24'',
                     Gateway := ''196.168.100.254''\<rparr>]
     = Inr expectedValidNetworkConfigMultipleNics"
  "Render [validNic\<lparr>IPV6Address := ''2001:db8::1/64'', Gateway6 := ''2001:db8::1''\<rparr>]
     = Inr expectedValidNetworkConfigDualStack"
  "Render [validNic\<lparr>IPAddress := [], Gateway := [], IPV6Address := ''2001:db8::1/64'',
                     Gateway6 := ''2001:db8::1''\<rparr>]
     = Inr expectedValidNetworkConfigIPV6"
  by (simp_all add: Render_def validate_def validateDevice_def validateFamily_def
        hasPrefixLength_def validNic_def validNicWithoutDNS_def renderDevice_def
        expectedValidNetworkConfig_def expectedValidNetworkConfigWithoutDNS_def
        expectedValidNetworkConfigMultipleNics_def expectedValidNetworkConfigDualStack_def
        expectedValidNetworkConfigIPV6_def)

lemma Render_test_errors:
  "Render [validNic\<lparr>IPAddress := []\<rparr>] = Inl ErrMissingIPAddress"
  "Render [validNic\<lparr>IPAddress := ''10.10.10.12''\<rparr>] = Inl ErrMalformedIPAddress"
  "Render [validNic\<lparr>IPAddress := ''10.10.10.115''\<rparr>] = Inl ErrMalformedIPAddress"
  "Render [validNic\<lparr>Gateway := []\<rparr>] = Inl ErrMissingGateway"
  "Render [validNic\<lparr>MacAddress := [], IPAddress := ''10.10.10.11/24''\<rparr>]
     = Inl ErrMissingMacAddress"
  "Render [] = Inl ErrMissingNetworkConfigData"
  by (simp_all add: Render_def validate_def validateDevice_def validateFamily_def
        hasPrefixLength_def validNic_def)

end
